theory Spec2Isabelle
  imports Main "HOL-Library.Word" "HOL-Library.AList"
begin

section \<open>Entities and structural inspection\<close>

text \<open>
  The stream cache of \<^verbatim>\<open>internal/cache\<close> is generic in its entity type \<^verbatim>\<open>T\<close> and reads
  entities through Go's \<^verbatim>\<open>reflect\<close> package. A Go value is modelled by the datatype
  below: a struct is the list of its fields in declaration order, a pointer is either nil
  (\<open>VPtr None\<close>) or points to a value. \<^verbatim>\<open>reflect.DeepEqual\<close> on two such values is HOL
  equality. Go types of the same kind are not told apart: every integer type is \<open>VInt\<close>,
  every string type \<open>VString\<close>.
\<close>

datatype val =
    VInt int
  | VString string
  | VBool bool
  | VSlice "val list"
  | VStruct "(string \<times> val) list"
  | VPtr "val option"

text \<open>
  The run-time panics the cache code can raise. A Go \<^verbatim>\<open>error\<close> result, which is a value and
  not a panic, is a \<open>CacheError option\<close> below, with \<open>None\<close> for nil.
\<close>

datatype panic =
    PanicCloseOfClosedChannel
  | PanicNonPositiveTicker
  | PanicMakeChan
  | PanicReflect
  | PanicNilPointer

text \<open>
  \<^verbatim>\<open>v := reflect.ValueOf(x); if v.Kind() == reflect.Ptr { v = v.Elem() }\<close>: the result is
  \<open>None\<close> for the invalid \<^verbatim>\<open>reflect.Value\<close> obtained from a nil pointer.
\<close>

definition deref :: "val \<Rightarrow> val option" where
  "deref v = (case v of VPtr p \<Rightarrow> p | _ \<Rightarrow> Some v)"

text \<open>\<^verbatim>\<open>FieldByName\<close> on a struct: the first field of that name, if any.\<close>

definition FieldByName :: "(string \<times> val) list \<Rightarrow> string \<Rightarrow> val option" where
  "FieldByName fs name = map_of fs name"

definition extractID :: "val \<Rightarrow> string" where
  "extractID payload =
     (case deref payload of
        Some (VStruct fs) \<Rightarrow>
          (case FieldByName fs ''ID'' of
             Some (VString s) \<Rightarrow> s
           | _ \<Rightarrow> [])
      | _ \<Rightarrow> [])"

section \<open>Shared value types\<close>

text \<open>
  Times are nanosecond readings of the clock, durations are \<^verbatim>\<open>int64\<close> nanoseconds.
  \<^verbatim>\<open>Time.Sub\<close> saturates at the ends of the \<^verbatim>\<open>int64\<close> range; \<^verbatim>\<open>time.Since(t)\<close> is
  \<^verbatim>\<open>time.Now().Sub(t)\<close>, with the reading of \<^verbatim>\<open>time.Now()\<close> passed in.
\<close>

type_synonym Time = int
type_synonym Duration = int

definition maxDuration :: Duration where
  "maxDuration = 2 ^ 63 - 1"

definition minDuration :: Duration where
  "minDuration = - (2 ^ 63)"

definition Sub :: "Time \<Rightarrow> Time \<Rightarrow> Duration" where
  "Sub t u =
     (let d = t - u in
      if d > maxDuration then maxDuration
      else if d < minDuration then minDuration
      else d)"

definition Since :: "Time \<Rightarrow> Time \<Rightarrow> Duration" where
  "Since now t = Sub now t"

definition Minute :: Duration where
  "Minute = 60 * 1000000000"

record CacheError =
  Message :: string

definition ErrCacheMiss :: CacheError where
  "ErrCacheMiss = \<lparr>Message = ''cache miss''\<rparr>"

text \<open>The zero \<^verbatim>\<open>time.Time\<close> of a result that sets no timestamp is \<open>None\<close>.\<close>

record 'a CacheResult =
  Data :: 'a
  Error :: "CacheError option"
  Cached :: bool
  Timestamp :: "Time option"
  Version :: int

type_synonym FilterOperator = string

definition FilterEquals :: FilterOperator where "FilterEquals = ''eq''"
definition FilterNotEquals :: FilterOperator where "FilterNotEquals = ''ne''"
definition FilterIn :: FilterOperator where "FilterIn = ''in''"
definition FilterNotIn :: FilterOperator where "FilterNotIn = ''nin''"
definition FilterGreater :: FilterOperator where "FilterGreater = ''gt''"
definition FilterLess :: FilterOperator where "FilterLess = ''lt''"
definition FilterContains :: FilterOperator where "FilterContains = ''contains''"

record Filter =
  Field :: string
  Operator :: FilterOperator
  Value :: val

record SortField =
  SortName :: string
  Desc :: bool

record Query =
  Filters :: "Filter list"
  Sort :: "SortField list"
  Limit :: int
  Offset :: int

record CacheStats =
  HitCount :: "64 word"
  MissCount :: "64 word"
  ItemCount :: "64 word"
  MemoryUsage :: "64 word"
  LastCleanup :: "Time option"

record CacheConfig =
  TTL :: Duration
  MaxItems :: int
  CleanupInterval :: Duration
  BufferSize :: int

definition DefaultCacheConfig :: CacheConfig where
  "DefaultCacheConfig =
     \<lparr>TTL = 5 * Minute, MaxItems = 1000, CleanupInterval = 1 * Minute, BufferSize = 64\<rparr>"

text \<open>
  Modelled from the spec: the \<^verbatim>\<open>pubsub\<close> package with the event type is not among the
  sources. An event is a pair of a type, one of Created, Updated and Deleted, and a
  payload of the entity type.
\<close>

datatype EventType = CreatedEvent | UpdatedEvent | DeletedEvent

record Event =
  Type :: EventType
  Payload :: val

section \<open>The stream cache\<close>

record cacheItem =
  data :: val
  timestamp :: Time
  version :: int
  hits :: "64 word"

record Ticker =
  interval :: Duration
  stopped :: bool

text \<open>
  The index \<^verbatim>\<open>items\<close> is a Go map. It is kept as an association list with distinct keys,
  so that a scan has an order to follow; Go leaves the iteration order of a map
  unspecified, and the list order stands for one of the possible orders. The channels
  \<^verbatim>\<open>done\<close> and \<^verbatim>\<open>eventDone\<close> carry no value and are only ever closed: each is the flag
  whether it has been closed. \<open>eventSub\<close> tells whether an event subscriber was given.
  The field \<^verbatim>\<open>queries\<close> of the source is never read or written by any function and is left
  out.
\<close>

record streamCache =
  config :: CacheConfig
  items :: "(string \<times> cacheItem) list"
  stats :: CacheStats
  cleanup :: "Ticker option"
  done_closed :: bool
  eventDone_closed :: bool
  eventSub :: bool

definition zeroStats :: CacheStats where
  "zeroStats = \<lparr>HitCount = 0, MissCount = 0, ItemCount = 0, MemoryUsage = 0, LastCleanup = None\<rparr>"

text \<open>\<^verbatim>\<open>time.NewTicker(d)\<close> panics unless \<open>d\<close> is positive.\<close>

definition NewTicker :: "Duration \<Rightarrow> panic + Ticker" where
  "NewTicker d = (if d \<le> 0 then Inl PanicNonPositiveTicker else Inr \<lparr>interval = d, stopped = False\<rparr>)"

definition NewStreamCache :: "CacheConfig \<Rightarrow> bool \<Rightarrow> panic + streamCache" where
  "NewStreamCache cfg eventSubscriber =
     (let cfg' = (if TTL cfg = 0 then DefaultCacheConfig else cfg) in
      case NewTicker (CleanupInterval cfg') of
        Inl e \<Rightarrow> Inl e
      | Inr t \<Rightarrow>
          Inr \<lparr>config = cfg', items = [], stats = zeroStats, cleanup = Some t,
               done_closed = False, eventDone_closed = False,
               eventSub = eventSubscriber\<rparr>)"

definition isExpired :: "streamCache \<Rightarrow> Time \<Rightarrow> cacheItem \<Rightarrow> bool" where
  "isExpired c now item = (Since now (timestamp item) > TTL (config c))"

subsection \<open>Invalidate and Clear\<close>

fun Invalidate :: "streamCache \<Rightarrow> string list \<Rightarrow> streamCache" where
  "Invalidate c [] = c"
| "Invalidate c (k # ids) =
     Invalidate (c\<lparr>items := AList.delete k (items c),
                   stats := (stats c)\<lparr>ItemCount := ItemCount (stats c) - 1\<rparr>\<rparr>) ids"

definition Clear :: "streamCache \<Rightarrow> streamCache" where
  "Clear c = c\<lparr>items := [], stats := (stats c)\<lparr>ItemCount := 0\<rparr>\<rparr>"

definition Stats :: "streamCache \<Rightarrow> CacheStats" where
  "Stats c = stats c"

subsection \<open>Event ingestion\<close>

text \<open>
  \<^verbatim>\<open>handleEvent\<close> reads the clock twice: \<open>now\<close> is the reading stored as the item's
  timestamp, \<open>unixNano\<close> is the value of the second call, \<^verbatim>\<open>time.Now().UnixNano()\<close>.
\<close>

definition handleEvent :: "streamCache \<Rightarrow> Event \<Rightarrow> Time \<Rightarrow> int \<Rightarrow> streamCache" where
  "handleEvent c event now unixNano =
     (let k = extractID (Payload event) in
      if k = [] then c
      else
        (let upsert =
           (let item = \<lparr>data = Payload event, timestamp = now, version = unixNano, hits = 0\<rparr> in
            case map_of (items c) k of
              Some existing \<Rightarrow>
                c\<lparr>items := AList.update k (item\<lparr>hits := hits existing\<rparr>) (items c)\<rparr>
            | None \<Rightarrow>
                c\<lparr>items := AList.update k item (items c),
                  stats := (stats c)\<lparr>ItemCount := ItemCount (stats c) + 1\<rparr>\<rparr>)
         in
         case Type event of
           CreatedEvent \<Rightarrow> upsert
         | UpdatedEvent \<Rightarrow> upsert
         | DeletedEvent \<Rightarrow>
             (case map_of (items c) k of
                Some existing \<Rightarrow>
                  c\<lparr>items := AList.delete k (items c),
                    stats := (stats c)\<lparr>ItemCount := ItemCount (stats c) - 1\<rparr>\<rparr>
              | None \<Rightarrow> c)))"

text \<open>
  The ingest task \<^verbatim>\<open>eventRoutine\<close> hands every event it receives to \<^verbatim>\<open>handleEvent\<close>, in
  the order of arrival. An entry of the trace is the event with the two clock readings
  taken while it is handled.
\<close>

fun ingest :: "streamCache \<Rightarrow> (Event \<times> Time \<times> int) list \<Rightarrow> streamCache" where
  "ingest c [] = c"
| "ingest c ((event, now, unixNano) # rest) = ingest (handleEvent c event now unixNano) rest"

subsection \<open>Result channels\<close>

text \<open>
  A result channel as its producer leaves it: the capacity it was made with, the values
  sent on it in order, and whether it has been closed.

  \<^verbatim>\<open>make(chan E, n)\<close> panics (\<^verbatim>\<open>makechan: size out of range\<close>) for a negative \<open>n\<close> and for an
  \<open>n\<close> whose buffer the runtime does not allocate: \<open>n\<close> times the size of \<^verbatim>\<open>E\<close> overflows or
  exceeds the allocation limit. The runtime and the size of the element type are not part
  of the cache sources, so the largest capacity the runtime grants for the element type of
  the channel is the parameter \<open>lim\<close> of every function that makes a channel. A capacity
  of zero is always granted.
\<close>

record 'a chan =
  capacity :: int
  sent :: "'a list"
  closed :: bool

definition make_chan :: "nat \<Rightarrow> int \<Rightarrow> panic + 'a chan" where
  "make_chan lim n =
     (if n < 0 \<or> int lim < n then Inl PanicMakeChan
      else Inr \<lparr>capacity = n, sent = [], closed = False\<rparr>)"

definition send :: "'a chan \<Rightarrow> 'a \<Rightarrow> 'a chan" where
  "send ch x = ch\<lparr>sent := sent ch @ [x]\<rparr>"

definition close_chan :: "'a chan \<Rightarrow> 'a chan" where
  "close_chan ch = ch\<lparr>closed := True\<rparr>"

text \<open>
  Every producer ends in \<^verbatim>\<open>select { case resultCh <- r: case <-ctx.Done(): return }\<close>.
  Which case runs is decided outside the cache (by the consumer and by the caller's
  context), so the branch taken is an argument of the model.
\<close>

datatype select_branch = SendResult | CtxDone

definition select_send :: "select_branch \<Rightarrow> 'a chan \<Rightarrow> 'a \<Rightarrow> 'a chan" where
  "select_send br ch x = (case br of SendResult \<Rightarrow> send ch x | CtxDone \<Rightarrow> ch)"

subsection \<open>Get\<close>

text \<open>
  \<open>zero\<close> is the zero value of the type parameter \<^verbatim>\<open>T\<close> (\<^verbatim>\<open>var zero T\<close>), \<open>now\<close> the clock
  reading of the expiry check.
\<close>

definition Get ::
  "nat \<Rightarrow> val \<Rightarrow> streamCache \<Rightarrow> Time \<Rightarrow> select_branch \<Rightarrow> string
     \<Rightarrow> panic + (streamCache \<times> val CacheResult chan)" where
  "Get lim zero c now br k =
     (case make_chan lim (BufferSize (config c)) of
        Inl e \<Rightarrow> Inl e
      | Inr resultCh \<Rightarrow>
          (let miss =
              (c\<lparr>stats := (stats c)\<lparr>MissCount := MissCount (stats c) + 1\<rparr>\<rparr>,
               close_chan (select_send br resultCh
                 \<lparr>Data = zero, Error = Some ErrCacheMiss, Cached = False,
                  Timestamp = None, Version = 0\<rparr>))
           in
           case map_of (items c) k of
             Some item \<Rightarrow>
               if \<not> isExpired c now item then
                 Inr (c\<lparr>items := AList.update k (item\<lparr>hits := hits item + 1\<rparr>) (items c),
                        stats := (stats c)\<lparr>HitCount := HitCount (stats c) + 1\<rparr>\<rparr>,
                      close_chan (select_send br resultCh
                        \<lparr>Data = data item, Error = None, Cached = True,
                         Timestamp = Some (timestamp item), Version = version item\<rparr>))
               else Inr miss
           | None \<Rightarrow> Inr miss))"

subsection \<open>Filters\<close>

definition matchesFilter :: "val \<Rightarrow> Filter \<Rightarrow> bool" where
  "matchesFilter v f =
     (if Operator f = FilterEquals then v = Value f
      else if Operator f = FilterNotEquals then v \<noteq> Value f
      else True)"

fun matchesFilters_loop :: "(string \<times> val) list \<Rightarrow> Filter list \<Rightarrow> bool" where
  "matchesFilters_loop fs [] = True"
| "matchesFilters_loop fs (f # rest) =
     (case FieldByName fs (Field f) of
        None \<Rightarrow> matchesFilters_loop fs rest
      | Some v \<Rightarrow> if \<not> matchesFilter v f then False else matchesFilters_loop fs rest)"

text \<open>\<^verbatim>\<open>Value.FieldByName\<close> panics when the value is not a struct.\<close>

definition matchesFilters :: "val \<Rightarrow> Filter list \<Rightarrow> panic + bool" where
  "matchesFilters d filters =
     (if filters = [] then Inr True
      else
        (case deref d of
           Some (VStruct fs) \<Rightarrow> Inr (matchesFilters_loop fs filters)
         | _ \<Rightarrow> Inl PanicReflect))"

subsection \<open>List and Query\<close>

text \<open>
  The scan of \<^verbatim>\<open>List\<close> runs under the read lock. \<^verbatim>\<open>isExpired\<close> reads the clock for each
  item; the scan is short, and \<open>now\<close> is the one reading used for all its expiry checks.
  \<open>stamp\<close> is the later reading put into the result. A panic in the scan ends the program;
  it is the result \<open>Inl\<close>.
\<close>

fun List_scan ::
  "streamCache \<Rightarrow> Time \<Rightarrow> Filter list \<Rightarrow> (string \<times> cacheItem) list \<Rightarrow> val list \<Rightarrow> panic + val list" where
  "List_scan c now filters [] results = Inr results"
| "List_scan c now filters ((k, item) # rest) results =
     (if isExpired c now item then List_scan c now filters rest results
      else
        (case matchesFilters (data item) filters of
           Inl e \<Rightarrow> Inl e
         | Inr True \<Rightarrow> List_scan c now filters rest (results @ [data item])
         | Inr False \<Rightarrow> List_scan c now filters rest results))"

definition List ::
  "nat \<Rightarrow> streamCache \<Rightarrow> Time \<Rightarrow> Time \<Rightarrow> select_branch \<Rightarrow> Filter list
     \<Rightarrow> panic + (val list) CacheResult chan" where
  "List lim c now stamp br filters =
     (case make_chan lim (BufferSize (config c)) of
        Inl e \<Rightarrow> Inl e
      | Inr resultCh \<Rightarrow>
          (case List_scan c now filters (items c) [] of
             Inl e \<Rightarrow> Inl e
           | Inr results \<Rightarrow>
               Inr (close_chan (select_send br resultCh
                 \<lparr>Data = results, Error = None, Cached = True,
                  Timestamp = Some stamp, Version = 0\<rparr>))))"

text \<open>The forwarding loop of \<^verbatim>\<open>Query\<close>: \<^verbatim>\<open>for result := range results { select ... }\<close>.\<close>

fun forward :: "select_branch \<Rightarrow> 'a chan \<Rightarrow> 'a list \<Rightarrow> 'a chan" where
  "forward br ch [] = ch"
| "forward br ch (x # xs) =
     (case br of SendResult \<Rightarrow> forward br (send ch x) xs | CtxDone \<Rightarrow> ch)"

definition Query ::
  "nat \<Rightarrow> streamCache \<Rightarrow> Time \<Rightarrow> Time \<Rightarrow> select_branch \<Rightarrow> select_branch \<Rightarrow> Query
     \<Rightarrow> panic + (val list) CacheResult chan" where
  "Query lim c now stamp br_list br query =
     (case make_chan lim (BufferSize (config c)) of
        Inl e \<Rightarrow> Inl e
      | Inr resultCh \<Rightarrow>
          (case List lim c now stamp br_list (Filters query) of
             Inl e \<Rightarrow> Inl e
           | Inr results \<Rightarrow> Inr (close_chan (forward br resultCh (sent results)))))"

subsection \<open>Close and cleanup\<close>

text \<open>
  \<^verbatim>\<open>close(ch)\<close> panics on a channel that is already closed. The second component of the
  result of \<^verbatim>\<open>Close\<close> is the returned \<^verbatim>\<open>error\<close>.
\<close>

definition close_signal :: "bool \<Rightarrow> panic + bool" where
  "close_signal is_closed = (if is_closed then Inl PanicCloseOfClosedChannel else Inr True)"

definition Close :: "streamCache \<Rightarrow> panic + (streamCache \<times> CacheError option)" where
  "Close c =
     (case close_signal (done_closed c) of
        Inl e \<Rightarrow> Inl e
      | Inr d \<Rightarrow>
          (case close_signal (eventDone_closed c) of
             Inl e \<Rightarrow> Inl e
           | Inr ed \<Rightarrow>
               Inr (c\<lparr>done_closed := d, eventDone_closed := ed,
                      cleanup := (case cleanup c of
                                    None \<Rightarrow> None
                                  | Some t \<Rightarrow> Some (t\<lparr>stopped := True\<rparr>))\<rparr>,
                    None)))"

fun performCleanup_scan ::
  "streamCache \<Rightarrow> Time \<Rightarrow> (string \<times> cacheItem) list \<Rightarrow> streamCache" where
  "performCleanup_scan c now [] = c"
| "performCleanup_scan c now ((k, item) # rest) =
     (if Sub now (timestamp item) > TTL (config c) then
        performCleanup_scan
          (c\<lparr>items := AList.delete k (items c),
             stats := (stats c)\<lparr>ItemCount := ItemCount (stats c) - 1\<rparr>\<rparr>) now rest
      else performCleanup_scan c now rest)"

definition performCleanup :: "streamCache \<Rightarrow> Time \<Rightarrow> streamCache" where
  "performCleanup c now =
     (let c' = performCleanup_scan c now (items c) in
      c'\<lparr>stats := (stats c')\<lparr>LastCleanup := Some now\<rparr>\<rparr>)"

section \<open>The cache manager\<close>

text \<open>
  The manager holds pointers to its two cache managers, and these to their caches. The
  caches live in a store, a list indexed by address: constructing a cache appends it, so
  every construction yields an address not used before. A service is represented by
  whether the interface value is non-nil; taking the method value \<^verbatim>\<open>service.Subscribe\<close> of
  a nil interface panics.
\<close>

type_synonym store = "streamCache list"

definition store_get :: "store \<Rightarrow> nat \<Rightarrow> streamCache option" where
  "store_get h a = (if a < length h then Some (h ! a) else None)"

record SessionCacheManager =
  session_cache :: "nat option"
  session_service :: bool
  session_config :: CacheConfig

record MessageCacheManager =
  message_cache :: "nat option"
  message_service :: bool
  message_config :: CacheConfig

text \<open>\<open>ctx_cancelled\<close> is \<open>None\<close> while \<^verbatim>\<open>m.cancel\<close> is nil.\<close>

record Manager =
  mconfig :: CacheConfig
  sessionManager :: "SessionCacheManager option"
  messageManager :: "MessageCacheManager option"
  sessionService :: bool
  messageService :: bool
  historyService :: bool
  ctx_cancelled :: "bool option"
  started :: bool

record world =
  heap :: store
  manager :: Manager

definition NewManager :: "bool \<Rightarrow> bool \<Rightarrow> bool \<Rightarrow> CacheConfig \<Rightarrow> Manager" where
  "NewManager sessionSvc messageSvc historySvc cfg =
     (let cfg' = (if TTL cfg = 0 then DefaultCacheConfig else cfg) in
      \<lparr>mconfig = cfg', sessionManager = None, messageManager = None,
       sessionService = sessionSvc, messageService = messageSvc, historyService = historySvc,
       ctx_cancelled = None, started = False\<rparr>)"

text \<open>\<^verbatim>\<open>NewSessionCache\<close> and \<^verbatim>\<open>NewMessageCache\<close>: the new cache and its address.\<close>

definition NewSessionCache :: "CacheConfig \<Rightarrow> bool \<Rightarrow> store \<Rightarrow> panic + (store \<times> nat)" where
  "NewSessionCache cfg svc h =
     (if \<not> svc then Inl PanicNilPointer
      else case NewStreamCache cfg True of
             Inl e \<Rightarrow> Inl e
           | Inr c \<Rightarrow> Inr (h @ [c], length h))"

definition NewMessageCache :: "CacheConfig \<Rightarrow> bool \<Rightarrow> store \<Rightarrow> panic + (store \<times> nat)" where
  "NewMessageCache cfg svc h =
     (if \<not> svc then Inl PanicNilPointer
      else case NewStreamCache cfg True of
             Inl e \<Rightarrow> Inl e
           | Inr c \<Rightarrow> Inr (h @ [c], length h))"

definition NewSessionCacheManager :: "bool \<Rightarrow> CacheConfig \<Rightarrow> SessionCacheManager" where
  "NewSessionCacheManager svc cfg =
     \<lparr>session_cache = None, session_service = svc, session_config = cfg\<rparr>"

definition NewMessageCacheManager :: "bool \<Rightarrow> CacheConfig \<Rightarrow> MessageCacheManager" where
  "NewMessageCacheManager svc cfg =
     \<lparr>message_cache = None, message_service = svc, message_config = cfg\<rparr>"

text \<open>
  \<^verbatim>\<open>SessionCacheManager.Start\<close> also spawns \<^verbatim>\<open>prePopulateCache\<close>, which builds events and
  drops them: it changes nothing.
\<close>

definition SessionCacheManager_Start ::
  "SessionCacheManager \<Rightarrow> store \<Rightarrow> panic + (SessionCacheManager \<times> store \<times> CacheError option)" where
  "SessionCacheManager_Start sm h =
     (case NewSessionCache (session_config sm) (session_service sm) h of
        Inl e \<Rightarrow> Inl e
      | Inr (h', a) \<Rightarrow> Inr (sm\<lparr>session_cache := Some a\<rparr>, h', None))"

definition MessageCacheManager_Start ::
  "MessageCacheManager \<Rightarrow> store \<Rightarrow> panic + (MessageCacheManager \<times> store \<times> CacheError option)" where
  "MessageCacheManager_Start mm h =
     (case NewMessageCache (message_config mm) (message_service mm) h of
        Inl e \<Rightarrow> Inl e
      | Inr (h', a) \<Rightarrow> Inr (mm\<lparr>message_cache := Some a\<rparr>, h', None))"

definition Close_at :: "store \<Rightarrow> nat \<Rightarrow> panic + (store \<times> CacheError option)" where
  "Close_at h a =
     (case store_get h a of
        None \<Rightarrow> Inl PanicNilPointer
      | Some c \<Rightarrow>
          (case Close c of
             Inl e \<Rightarrow> Inl e
           | Inr (c', err) \<Rightarrow> Inr (h[a := c'], err)))"

definition SessionCacheManager_Stop ::
  "SessionCacheManager \<Rightarrow> store \<Rightarrow> panic + (store \<times> CacheError option)" where
  "SessionCacheManager_Stop sm h =
     (case session_cache sm of
        Some a \<Rightarrow> Close_at h a
      | None \<Rightarrow> Inr (h, None))"

definition MessageCacheManager_Stop ::
  "MessageCacheManager \<Rightarrow> store \<Rightarrow> panic + (store \<times> CacheError option)" where
  "MessageCacheManager_Stop mm h =
     (case message_cache mm of
        Some a \<Rightarrow> Close_at h a
      | None \<Rightarrow> Inr (h, None))"

definition Start :: "world \<Rightarrow> panic + (world \<times> CacheError option)" where
  "Start w =
     (let m = manager w in
      if started m then Inr (w, None)
      else
        (let m1 = m\<lparr>ctx_cancelled := Some False\<rparr>;
             sm = NewSessionCacheManager (sessionService m1) (mconfig m1);
             mm = NewMessageCacheManager (messageService m1) (mconfig m1)
         in
         case SessionCacheManager_Start sm (heap w) of
           Inl e \<Rightarrow> Inl e
         | Inr (sm', h1, err1) \<Rightarrow>
             let m2 = m1\<lparr>sessionManager := Some sm', messageManager := Some mm\<rparr> in
             if err1 \<noteq> None then Inr (\<lparr>heap = h1, manager = m2\<rparr>, err1)
             else
               (case MessageCacheManager_Start mm h1 of
                  Inl e \<Rightarrow> Inl e
                | Inr (mm', h2, err2) \<Rightarrow>
                    let m3 = m2\<lparr>messageManager := Some mm'\<rparr> in
                    if err2 \<noteq> None then Inr (\<lparr>heap = h2, manager = m3\<rparr>, err2)
                    else Inr (\<lparr>heap = h2, manager = m3\<lparr>started := True\<rparr>\<rparr>, None))))"

definition Stop :: "world \<Rightarrow> panic + (world \<times> CacheError option)" where
  "Stop w =
     (let m = manager w in
      if \<not> started m then Inr (w, None)
      else
        (let m1 = (case ctx_cancelled m of
                     None \<Rightarrow> m
                   | Some b \<Rightarrow> m\<lparr>ctx_cancelled := Some True\<rparr>)
         in
         case (case sessionManager m1 of
                 None \<Rightarrow> Inr (heap w, [])
               | Some sm \<Rightarrow>
                   (case SessionCacheManager_Stop sm (heap w) of
                      Inl e \<Rightarrow> Inl e
                    | Inr (h, err) \<Rightarrow> Inr (h, if err \<noteq> None then [err] else []))) of
           Inl e \<Rightarrow> Inl e
         | Inr (h1, errs1) \<Rightarrow>
             (case (case messageManager m1 of
                      None \<Rightarrow> Inr (h1, errs1)
                    | Some mm \<Rightarrow>
                        (case MessageCacheManager_Stop mm h1 of
                           Inl e \<Rightarrow> Inl e
                         | Inr (h, err) \<Rightarrow>
                             Inr (h, if err \<noteq> None then errs1 @ [err] else errs1))) of
                Inl e \<Rightarrow> Inl e
              | Inr (h2, errs) \<Rightarrow>
                  Inr (\<lparr>heap = h2, manager = m1\<lparr>started := False\<rparr>\<rparr>,
                       case errs of [] \<Rightarrow> None | err # _ \<Rightarrow> err))))"

definition IsStarted :: "world \<Rightarrow> bool" where
  "IsStarted w = started (manager w)"

section \<open>Test data\<close>

text \<open>
  The entity type of the cache tests, \<^verbatim>\<open>type TestData struct { ID string; Name string; Age int }\<close>,
  and the cache that \<^verbatim>\<open>NewStreamCache(DefaultCacheConfig(), broker.Subscribe)\<close> returns.
\<close>

definition TestData :: "string \<Rightarrow> string \<Rightarrow> int \<Rightarrow> val" where
  "TestData i n a = VStruct [(''ID'', VString i), (''Name'', VString n), (''Age'', VInt a)]"

definition created :: "val \<Rightarrow> Event" where
  "created v = \<lparr>Type = CreatedEvent, Payload = v\<rparr>"

definition updated :: "val \<Rightarrow> Event" where
  "updated v = \<lparr>Type = UpdatedEvent, Payload = v\<rparr>"

definition deleted :: "val \<Rightarrow> Event" where
  "deleted v = \<lparr>Type = DeletedEvent, Payload = v\<rparr>"

definition default_cache :: streamCache where
  "default_cache =
     \<lparr>config = DefaultCacheConfig, items = [], stats = zeroStats,
      cleanup = Some \<lparr>interval = Minute, stopped = False\<rparr>,
      done_closed = False, eventDone_closed = False, eventSub = True\<rparr>"

text \<open>
  The three records of \<^verbatim>\<open>TestStreamCache_List\<close>, the default cache holding them, and a
  cache configured for at most one item.
\<close>

definition alice :: val where "alice = TestData ''1'' ''Alice'' 25"
definition bob :: val where "bob = TestData ''2'' ''Bob'' 30"
definition charlie :: val where "charlie = TestData ''3'' ''Charlie'' 35"

definition three_items :: streamCache where
  "three_items =
     default_cache
       \<lparr>items := [(''1'', \<lparr>data = alice, timestamp = 1, version = 11, hits = 0\<rparr>),
                  (''2'', \<lparr>data = bob, timestamp = 2, version = 12, hits = 0\<rparr>),
                  (''3'', \<lparr>data = charlie, timestamp = 3, version = 13, hits = 0\<rparr>)],
         stats := zeroStats\<lparr>ItemCount := 3\<rparr>\<rparr>"

definition bounded_config :: CacheConfig where
  "bounded_config = \<lparr>TTL = Minute, MaxItems = 1, CleanupInterval = Minute, BufferSize = 1\<rparr>"

definition bounded_cache :: streamCache where
  "bounded_cache =
     \<lparr>config = bounded_config, items = [], stats = zeroStats,
      cleanup = Some \<lparr>interval = Minute, stopped = False\<rparr>,
      done_closed = False, eventDone_closed = False, eventSub = True\<rparr>"

section \<open>What the specification says Get returns\<close>

text \<open>
  The specification speaks of the last event for an id in the sequence of ingested events.
  \<open>last_event_for\<close> follows these words: it is the last entry of the trace whose payload
  carries the id, if there is one. \<open>miss_result\<close> and \<open>hit_result\<close> are the two values the
  specification lets \<^verbatim>\<open>Get\<close> emit.
\<close>

fun last_event_for :: "string \<Rightarrow> (Event \<times> Time \<times> int) list \<Rightarrow> (Event \<times> Time \<times> int) option" where
  "last_event_for k [] = None"
| "last_event_for k (x # rest) =
     (case last_event_for k rest of
        Some y \<Rightarrow> Some y
      | None \<Rightarrow> if extractID (Payload (fst x)) = k then Some x else None)"

definition served :: "cacheItem \<Rightarrow> val \<times> Time \<times> int" where
  "served item = (data item, timestamp item, version item)"

definition miss_result :: "val \<Rightarrow> val CacheResult" where
  "miss_result zero =
     \<lparr>Data = zero, Error = Some ErrCacheMiss, Cached = False, Timestamp = None, Version = 0\<rparr>"

definition hit_result :: "val \<Rightarrow> Time \<Rightarrow> int \<Rightarrow> val CacheResult" where
  "hit_result v t n = \<lparr>Data = v, Error = None, Cached = True, Timestamp = Some t, Version = n\<rparr>"

section \<open>States of the manager's lifecycle\<close>

text \<open>
  The manager state the lifecycle is described by: after a successful \<^verbatim>\<open>Start\<close> on store
  \<open>h\<close> the two cache managers point to the addresses \<open>length h\<close> and \<open>length h + 1\<close>.
\<close>

definition running :: "Manager \<Rightarrow> nat \<Rightarrow> Manager" where
  "running m a =
     m\<lparr>ctx_cancelled := Some False,
       sessionManager := Some \<lparr>session_cache = Some a, session_service = sessionService m,
                               session_config = mconfig m\<rparr>,
       messageManager := Some \<lparr>message_cache = Some (a + 1), message_service = messageService m,
                               message_config = mconfig m\<rparr>,
       started := True\<rparr>"

definition closed_cache :: "streamCache \<Rightarrow> streamCache" where
  "closed_cache c =
     c\<lparr>done_closed := True, eventDone_closed := True,
       cleanup := map_option (\<lambda>t. t\<lparr>stopped := True\<rparr>) (cleanup c)\<rparr>"

definition example_world :: world where
  "example_world = \<lparr>heap = [], manager = NewManager True True True DefaultCacheConfig\<rparr>"

section \<open>Properties of Invalidate\<close>

lemma delete_as_filter: "AList.delete k al = filter (\<lambda>p. fst p \<noteq> k) al"
  by (auto simp: AList.delete_eq intro: filter_cong)

lemma Invalidate_items:
  "items (Invalidate c ids) = filter (\<lambda>p. fst p \<notin> set ids) (items c)"
proof (induction ids arbitrary: c)
  case Nil
  show ?case by simp
next
  case (Cons k ids)
  then show ?case by (simp add: delete_as_filter conj_commute)
qed

lemma Invalidate_ItemCount:
  "ItemCount (stats (Invalidate c ids)) = ItemCount (stats c) - of_nat (length ids)"
  by (induction ids arbitrary: c) simp_all

lemma default_cache_new: "NewStreamCache DefaultCacheConfig True = Inr default_cache"
  by (simp add: NewStreamCache_def DefaultCacheConfig_def NewTicker_def Minute_def default_cache_def)

text \<open>
  C9. \<^verbatim>\<open>Invalidate(ids...)\<close> removes every listed id from the index and keeps the other
  records, and it decrements \<^verbatim>\<open>ItemCount\<close> once per listed id whether or not the id was
  present. For an absent id the records stay as they are while the count still drops by
  one; on the empty default cache one such call leaves the count at \<open>-1\<close>, below zero and
  below the number of stored records.
\<close>

theorem Invalidate_decrements_per_listed_id:
  "items (Invalidate c ids) = filter (\<lambda>p. fst p \<notin> set ids) (items c)
   \<and> ItemCount (Stats (Invalidate c ids)) = ItemCount (Stats c) - of_nat (length ids)
   \<and> (k \<notin> fst ` set (items c) \<longrightarrow>
        items (Invalidate c [k]) = items c
        \<and> ItemCount (Stats (Invalidate c [k])) = ItemCount (Stats c) - 1)
   \<and> sint (ItemCount (Stats (Invalidate default_cache [k]))) = - 1
   \<and> sint (ItemCount (Stats (Invalidate default_cache [k])))
        < int (length (items (Invalidate default_cache [k])))"
proof -
  have absent: "k \<notin> fst ` set (items c) \<Longrightarrow> items (Invalidate c [k]) = items c"
    by simp
  have below: "sint (ItemCount (Stats (Invalidate default_cache [k]))) = - 1"
    by (simp add: Stats_def default_cache_def zeroStats_def)
  have stored: "items (Invalidate default_cache [k]) = []"
    by (simp add: default_cache_def)
  show ?thesis
    using absent below stored
    by (simp add: Invalidate_items Invalidate_ItemCount Stats_def)
qed

theorem Invalidate_decrements_per_listed_id_witness:
  "items (Invalidate (handleEvent default_cache (created (TestData ''a'' ''Alice'' 25)) 5 7)
            [''a'', ''b'', ''b'']) = []
   \<and> sint (ItemCount (Stats (Invalidate
         (handleEvent default_cache (created (TestData ''a'' ''Alice'' 25)) 5 7)
            [''a'', ''b'', ''b'']))) = - 2
   \<and> ''b'' \<notin> fst ` set (items (handleEvent default_cache (created (TestData ''a'' ''Alice'' 25)) 5 7))
   \<and> sint (ItemCount (Stats (Invalidate
         (handleEvent default_cache (created (TestData ''a'' ''Alice'' 25)) 5 7) [''b'']))) = 0
   \<and> length (items (Invalidate
         (handleEvent default_cache (created (TestData ''a'' ''Alice'' 25)) 5 7) [''b''])) = 1"
proof -
  have ev: "handleEvent default_cache (created (TestData ''a'' ''Alice'' 25)) 5 7 =
      default_cache\<lparr>items := [(''a'', \<lparr>data = TestData ''a'' ''Alice'' 25, timestamp = 5,
                                       version = 7, hits = 0\<rparr>)],
                    stats := zeroStats\<lparr>ItemCount := 1\<rparr>\<rparr>"
    by (simp add: handleEvent_def created_def TestData_def extractID_def deref_def
        FieldByName_def default_cache_def zeroStats_def Let_def)
  show ?thesis
    using Invalidate_decrements_per_listed_id
      [of "handleEvent default_cache (created (TestData ''a'' ''Alice'' 25)) 5 7"
          "[''a'', ''b'', ''b'']" "''b''"]
    by (simp add: ev Stats_def zeroStats_def)
qed

section \<open>Configuration defaulting\<close>

lemma Get_capacity:
  "Get lim zero c now br k = Inr (c', ch) \<Longrightarrow> capacity ch = BufferSize (config c)"
  by (auto simp: Get_def make_chan_def close_chan_def select_send_def send_def Let_def
      split: if_splits option.splits select_branch.splits)

lemma Get_returns:
  "0 \<le> BufferSize (config c) \<Longrightarrow> BufferSize (config c) \<le> int lim \<Longrightarrow>
   \<exists>c' ch. Get lim zero c now br k = Inr (c', ch)"
  by (auto simp: Get_def make_chan_def Let_def split: option.splits)

text \<open>
  C10. Defaulting looks at the TTL only. With a zero TTL both \<^verbatim>\<open>NewStreamCache\<close> and
  \<^verbatim>\<open>NewManager\<close> drop the whole supplied configuration for the defaults (TTL 5 min,
  MaxItems 1000, CleanupInterval 1 min, BufferSize 64). With a non-zero TTL every field is
  kept as supplied: the manager stores the configuration unchanged, the cleanup ticker is
  made from the supplied CleanupInterval itself (so an interval of zero reaches
  \<^verbatim>\<open>time.NewTicker\<close>, which panics on it), and with a zero BufferSize the result channel of
  \<^verbatim>\<open>Get\<close> has capacity zero.
\<close>

theorem config_defaulting_keyed_on_TTL:
  "(TTL cfg = 0 \<longrightarrow>
      NewStreamCache cfg sub = Inr (default_cache\<lparr>eventSub := sub\<rparr>)
      \<and> config (default_cache\<lparr>eventSub := sub\<rparr>) =
          \<lparr>TTL = 300000000000, MaxItems = 1000, CleanupInterval = 60000000000, BufferSize = 64\<rparr>
      \<and> mconfig (NewManager ss ms hs cfg) = DefaultCacheConfig)
   \<and> (TTL cfg \<noteq> 0 \<longrightarrow>
      mconfig (NewManager ss ms hs cfg) = cfg
      \<and> NewStreamCache cfg sub =
          (case NewTicker (CleanupInterval cfg) of
             Inl e \<Rightarrow> Inl e
           | Inr t \<Rightarrow> Inr \<lparr>config = cfg, items = [], stats = zeroStats, cleanup = Some t,
                           done_closed = False, eventDone_closed = False, eventSub = sub\<rparr>)
      \<and> (CleanupInterval cfg = 0 \<longrightarrow> NewStreamCache cfg sub = Inl PanicNonPositiveTicker)
      \<and> (\<forall>c. NewStreamCache cfg sub = Inr c \<and> BufferSize cfg = 0 \<longrightarrow>
             (\<exists>c' ch. Get lim zero c now br k = Inr (c', ch) \<and> capacity ch = 0)))"
proof -
  have dflt: "TTL cfg = 0 \<Longrightarrow> NewStreamCache cfg sub = Inr (default_cache\<lparr>eventSub := sub\<rparr>)"
    by (simp add: NewStreamCache_def DefaultCacheConfig_def NewTicker_def Minute_def default_cache_def)
  have cfgd: "config (default_cache\<lparr>eventSub := sub\<rparr>) =
          \<lparr>TTL = 300000000000, MaxItems = 1000, CleanupInterval = 60000000000, BufferSize = 64\<rparr>"
    by (simp add: default_cache_def DefaultCacheConfig_def Minute_def)
  have mgr: "mconfig (NewManager ss ms hs cfg) = (if TTL cfg = 0 then DefaultCacheConfig else cfg)"
    by (simp add: NewManager_def)
  have asis: "TTL cfg \<noteq> 0 \<Longrightarrow> NewStreamCache cfg sub =
          (case NewTicker (CleanupInterval cfg) of
             Inl e \<Rightarrow> Inl e
           | Inr t \<Rightarrow> Inr \<lparr>config = cfg, items = [], stats = zeroStats, cleanup = Some t,
                           done_closed = False, eventDone_closed = False, eventSub = sub\<rparr>)"
    by (simp add: NewStreamCache_def)
  have tick: "TTL cfg \<noteq> 0 \<Longrightarrow> CleanupInterval cfg = 0 \<Longrightarrow> NewStreamCache cfg sub = Inl PanicNonPositiveTicker"
    by (simp add: NewStreamCache_def NewTicker_def)
  have unbuf: "\<exists>c' ch. Get lim zero c now br k = Inr (c', ch) \<and> capacity ch = 0"
    if "TTL cfg \<noteq> 0" "NewStreamCache cfg sub = Inr c" "BufferSize cfg = 0" for c
  proof -
    from that have cc: "config c = cfg"
      by (auto simp: NewStreamCache_def split: sum.splits)
    with that(3) obtain c' ch where g: "Get lim zero c now br k = Inr (c', ch)"
      using Get_returns [of c lim zero now br k] by auto
    with cc that(3) show ?thesis using Get_capacity [OF g] by simp
  qed
  show ?thesis using dflt cfgd mgr asis tick unbuf by simp
qed

theorem config_defaulting_keyed_on_TTL_witness:
  "NewStreamCache \<lparr>TTL = 0, MaxItems = 7, CleanupInterval = 0, BufferSize = 3\<rparr> True = Inr default_cache
   \<and> mconfig (NewManager True True True \<lparr>TTL = 0, MaxItems = 7, CleanupInterval = 0, BufferSize = 3\<rparr>)
       = DefaultCacheConfig
   \<and> mconfig (NewManager True True True \<lparr>TTL = 1, MaxItems = 0, CleanupInterval = 0, BufferSize = 0\<rparr>)
       = \<lparr>TTL = 1, MaxItems = 0, CleanupInterval = 0, BufferSize = 0\<rparr>
   \<and> NewStreamCache \<lparr>TTL = 1, MaxItems = 0, CleanupInterval = 0, BufferSize = 0\<rparr> True
       = Inl PanicNonPositiveTicker
   \<and> (\<exists>c' ch. Get 0 (VStruct [])
          \<lparr>config = \<lparr>TTL = 1, MaxItems = 0, CleanupInterval = 1, BufferSize = 0\<rparr>,
           items = [], stats = zeroStats, cleanup = Some \<lparr>interval = 1, stopped = False\<rparr>,
           done_closed = False, eventDone_closed = False, eventSub = True\<rparr> 0 SendResult ''a''
        = Inr (c', ch) \<and> capacity ch = 0)"
proof -
  have a: "NewStreamCache \<lparr>TTL = 0, MaxItems = 7, CleanupInterval = 0, BufferSize = 3\<rparr> True = Inr default_cache
   \<and> mconfig (NewManager True True True \<lparr>TTL = 0, MaxItems = 7, CleanupInterval = 0, BufferSize = 3\<rparr>)
       = DefaultCacheConfig"
    using config_defaulting_keyed_on_TTL
      [of "\<lparr>TTL = 0, MaxItems = 7, CleanupInterval = 0, BufferSize = 3\<rparr>" True True True True
        0 "VStruct []" 0 SendResult "''a''"]
    by (simp add: default_cache_def)
  have b: "mconfig (NewManager True True True \<lparr>TTL = 1, MaxItems = 0, CleanupInterval = 0, BufferSize = 0\<rparr>)
       = \<lparr>TTL = 1, MaxItems = 0, CleanupInterval = 0, BufferSize = 0\<rparr>
   \<and> NewStreamCache \<lparr>TTL = 1, MaxItems = 0, CleanupInterval = 0, BufferSize = 0\<rparr> True
       = Inl PanicNonPositiveTicker"
    using config_defaulting_keyed_on_TTL
      [of "\<lparr>TTL = 1, MaxItems = 0, CleanupInterval = 0, BufferSize = 0\<rparr>" True True True True
        0 "VStruct []" 0 SendResult "''a''"]
    by (simp add: NewTicker_def)
  have c: "\<exists>c' ch. Get 0 (VStruct [])
          \<lparr>config = \<lparr>TTL = 1, MaxItems = 0, CleanupInterval = 1, BufferSize = 0\<rparr>,
           items = [], stats = zeroStats, cleanup = Some \<lparr>interval = 1, stopped = False\<rparr>,
           done_closed = False, eventDone_closed = False, eventSub = True\<rparr> 0 SendResult ''a''
        = Inr (c', ch) \<and> capacity ch = 0"
    using config_defaulting_keyed_on_TTL
      [of "\<lparr>TTL = 1, MaxItems = 0, CleanupInterval = 1, BufferSize = 0\<rparr>" True True True True
        0 "VStruct []" 0 SendResult "''a''"]
    by (simp add: NewTicker_def)
  from a b c show ?thesis by blast
qed

section \<open>Properties of event ingestion and Get\<close>

lemma handleEvent_config: "config (handleEvent c e t v) = config c"
  by (simp add: handleEvent_def Let_def split: EventType.splits option.splits)

lemma ingest_config: "config (ingest c evs) = config c"
  by (induction c evs rule: ingest.induct) (simp_all add: handleEvent_config)

lemma handleEvent_other:
  "extractID (Payload e) \<noteq> k \<Longrightarrow> map_of (items (handleEvent c e t v)) k = map_of (items c) k"
  by (simp add: handleEvent_def Let_def update_conv' delete_conv'
      split: EventType.splits option.splits)

lemma handleEvent_same:
  "extractID (Payload e) = k \<Longrightarrow> k \<noteq> [] \<Longrightarrow>
   map_option served (map_of (items (handleEvent c e t v)) k) =
     (if Type e = DeletedEvent then None else Some (Payload e, t, v))"
  by (simp add: handleEvent_def Let_def update_conv' delete_conv' served_def
      split: EventType.splits option.splits)

lemma ingest_lookup:
  "k \<noteq> [] \<Longrightarrow>
   map_option served (map_of (items (ingest c evs)) k) =
     (case last_event_for k evs of
        None \<Rightarrow> map_option served (map_of (items c) k)
      | Some (e, t, v) \<Rightarrow> if Type e = DeletedEvent then None else Some (Payload e, t, v))"
proof (induction c evs rule: ingest.induct)
  case (1 c)
  show ?case by simp
next
  case (2 c event now unixNano rest)
  show ?case
  proof (cases "last_event_for k rest")
    case (Some y)
    with 2 show ?thesis by simp
  next
    case None
    show ?thesis
    proof (cases "extractID (Payload event) = k")
      case True
      with None 2 show ?thesis by (simp add: handleEvent_same)
    next
      case False
      with None 2 show ?thesis by (simp add: handleEvent_other)
    qed
  qed
qed

lemma last_event_for_mem: "last_event_for k evs = Some x \<Longrightarrow> x \<in> set evs"
  by (induction evs) (auto split: option.splits if_splits)

lemma handleEvent_drops_empty_id:
  "extractID (Payload e) = [] \<Longrightarrow> handleEvent c e t v = c"
  by (simp add: handleEvent_def)

lemma handleEvent_empty_key:
  "map_of (items (handleEvent c e t v)) [] = map_of (items c) []"
proof (cases "extractID (Payload e) = []")
  case True
  then show ?thesis by (simp add: handleEvent_drops_empty_id)
next
  case False
  then show ?thesis by (rule handleEvent_other)
qed

lemma ingest_empty_key:
  "map_of (items (ingest c evs)) [] = map_of (items c) []"
  by (induction c evs rule: ingest.induct) (simp_all add: handleEvent_empty_key)

lemma Get_hit:
  "0 \<le> BufferSize (config c) \<Longrightarrow> BufferSize (config c) \<le> int lim \<Longrightarrow>
   map_option served (map_of (items c) k) = Some (d, t, n) \<Longrightarrow>
   Since now t \<le> TTL (config c) \<Longrightarrow>
   \<exists>c'. Get lim zero c now SendResult k =
     Inr (c', \<lparr>capacity = BufferSize (config c), sent = [hit_result d t n], closed = True\<rparr>)"
  by (auto simp: Get_def make_chan_def Let_def isExpired_def served_def hit_result_def
      select_send_def send_def close_chan_def)

lemma Get_miss:
  "0 \<le> BufferSize (config c) \<Longrightarrow> BufferSize (config c) \<le> int lim \<Longrightarrow>
   map_option served (map_of (items c) k) = None \<Longrightarrow>
   \<exists>c'. Get lim zero c now SendResult k =
     Inr (c', \<lparr>capacity = BufferSize (config c), sent = [miss_result zero], closed = True\<rparr>)"
  by (auto simp: Get_def make_chan_def Let_def miss_result_def
      select_send_def send_def close_chan_def)

lemma Get_cancelled:
  "0 \<le> BufferSize (config c) \<Longrightarrow> BufferSize (config c) \<le> int lim \<Longrightarrow>
   \<exists>c'. Get lim zero c now CtxDone k =
     Inr (c', \<lparr>capacity = BufferSize (config c), sent = [], closed = True\<rparr>)"
  by (auto simp: Get_def make_chan_def Let_def select_send_def close_chan_def
      split: option.splits)

lemma Get_size_out_of_range:
  "BufferSize (config c) < 0 \<or> int lim < BufferSize (config c) \<Longrightarrow>
   Get lim zero c now br k = Inl PanicMakeChan"
  by (auto simp: Get_def make_chan_def)

text \<open>
  C1, as amended. Take a cache as \<^verbatim>\<open>NewStreamCache\<close> returns it, with a BufferSize that is
  not negative and not beyond what the runtime grants for a channel, let it ingest any
  finite sequence of Created, Updated and Deleted events, and call \<^verbatim>\<open>Get\<close> at a time when no
  ingested record has outlived the TTL.

  \<^item> If the send is the branch of the select that runs (the context is not cancelled
    first), the channel carries exactly one value and is closed. For a non-empty id the
    value is the payload of the last Created or Updated event for the id with
    \<open>Cached = True\<close> and no error, or, when the last event for the id was Deleted or no
    event carried the id, the zero value with \<open>Cached = False\<close> and the cache-miss error.
    For the empty id the value is always the miss, whatever events were ingested.
  \<^item> If the branch of the cancelled context runs, the channel is closed with no value.
  \<^item> An event whose payload has the empty id is dropped: it leaves the cache as it was.
  \<^item> With a BufferSize that is negative or beyond what the runtime grants, \<^verbatim>\<open>Get\<close> panics
    in \<^verbatim>\<open>make\<close> and returns no channel.
\<close>

theorem Get_after_ingest:
  assumes fresh: "NewStreamCache cfg sub = Inr c"
    and ttl: "\<forall>(e, t, v) \<in> set evs. Since now t \<le> TTL (config c)"
  shows "(0 \<le> BufferSize (config c) \<and> BufferSize (config c) \<le> int lim \<longrightarrow>
            (\<exists>c'. Get lim zero (ingest c evs) now SendResult k =
               Inr (c', \<lparr>capacity = BufferSize (config c),
                         sent = [if k = [] then miss_result zero
                                 else case last_event_for k evs of
                                        None \<Rightarrow> miss_result zero
                                      | Some (e, t, v) \<Rightarrow>
                                          if Type e = DeletedEvent then miss_result zero
                                          else hit_result (Payload e) t v],
                         closed = True\<rparr>))
            \<and> (\<exists>c'. Get lim zero (ingest c evs) now CtxDone k =
               Inr (c', \<lparr>capacity = BufferSize (config c), sent = [], closed = True\<rparr>)))
         \<and> (BufferSize (config c) < 0 \<or> int lim < BufferSize (config c) \<longrightarrow>
               Get lim zero (ingest c evs) now br k = Inl PanicMakeChan)
         \<and> (extractID (Payload e0) = [] \<longrightarrow> handleEvent c0 e0 t0 v0 = c0)"
proof -
  from fresh have empty: "items c = []"
    by (auto simp: NewStreamCache_def Let_def split: sum.splits)
  have cfg: "config (ingest c evs) = config c" by (rule ingest_config)
  have sent_one: "\<exists>c'. Get lim zero (ingest c evs) now SendResult k =
               Inr (c', \<lparr>capacity = BufferSize (config c),
                         sent = [if k = [] then miss_result zero
                                 else case last_event_for k evs of
                                        None \<Rightarrow> miss_result zero
                                      | Some (e, t, v) \<Rightarrow>
                                          if Type e = DeletedEvent then miss_result zero
                                          else hit_result (Payload e) t v],
                         closed = True\<rparr>)"
    if lo: "0 \<le> BufferSize (config c)" and hi: "BufferSize (config c) \<le> int lim"
  proof (cases "k = []")
    case True
    from empty have "map_option served (map_of (items (ingest c evs)) []) = None"
      by (simp add: ingest_empty_key)
    from Get_miss [OF _ _ this, of lim zero now] lo hi cfg True show ?thesis by simp
  next
    case key: False
    show ?thesis
    proof (cases "last_event_for k evs")
      case None
      with key empty have "map_option served (map_of (items (ingest c evs)) k) = None"
        by (simp add: ingest_lookup)
      from Get_miss [OF _ _ this, of lim zero now] lo hi cfg None key show ?thesis by simp
    next
      case (Some x)
      obtain e t v where x: "x = (e, t, v)" by (cases x)
      from Some x have mem: "(e, t, v) \<in> set evs" by (auto dest: last_event_for_mem)
      with ttl have live: "Since now t \<le> TTL (config (ingest c evs))" by (auto simp: cfg)
      show ?thesis
      proof (cases "Type e = DeletedEvent")
        case True
        with key Some x have "map_option served (map_of (items (ingest c evs)) k) = None"
          by (simp add: ingest_lookup)
        from Get_miss [OF _ _ this, of lim zero now] lo hi cfg Some x True key
        show ?thesis by simp
      next
        case False
        with key Some x
        have "map_option served (map_of (items (ingest c evs)) k) = Some (Payload e, t, v)"
          by (simp add: ingest_lookup)
        from Get_hit [OF _ _ this live, of lim zero] lo hi cfg Some x False key
        show ?thesis by simp
      qed
    qed
  qed
  have sent_none: "\<exists>c'. Get lim zero (ingest c evs) now CtxDone k =
               Inr (c', \<lparr>capacity = BufferSize (config c), sent = [], closed = True\<rparr>)"
    if lo: "0 \<le> BufferSize (config c)" and hi: "BufferSize (config c) \<le> int lim"
    using Get_cancelled [of "ingest c evs" lim zero now k] lo hi by (simp add: cfg)
  have range: "Get lim zero (ingest c evs) now br k = Inl PanicMakeChan"
    if "BufferSize (config c) < 0 \<or> int lim < BufferSize (config c)"
    using that by (intro Get_size_out_of_range) (simp add: cfg)
  have dropped: "handleEvent c0 e0 t0 v0 = c0" if "extractID (Payload e0) = []"
    using that by (rule handleEvent_drops_empty_id)
  from sent_one sent_none range dropped show ?thesis by blast
qed

theorem Get_after_ingest_witness:
  "NewStreamCache DefaultCacheConfig True = Inr default_cache
   \<and> (\<exists>c'. Get 64 (TestData [] [] 0)
          (ingest default_cache
            [(created (TestData ''a'' ''Original'' 25), 5, 7),
             (created (TestData ''b'' ''Bob'' 30), 6, 8),
             (updated (TestData ''a'' ''Updated'' 26), 7, 9),
             (deleted (TestData ''b'' ''Bob'' 30), 8, 10),
             (created (TestData [] ''Nobody'' 1), 9, 11)]) 100 SendResult ''a'' =
        Inr (c', \<lparr>capacity = 64, sent = [hit_result (TestData ''a'' ''Updated'' 26) 7 9],
                  closed = True\<rparr>))
   \<and> (\<exists>c'. Get 64 (TestData [] [] 0)
          (ingest default_cache
            [(created (TestData ''a'' ''Original'' 25), 5, 7),
             (created (TestData ''b'' ''Bob'' 30), 6, 8),
             (updated (TestData ''a'' ''Updated'' 26), 7, 9),
             (deleted (TestData ''b'' ''Bob'' 30), 8, 10),
             (created (TestData [] ''Nobody'' 1), 9, 11)]) 100 SendResult ''b'' =
        Inr (c', \<lparr>capacity = 64, sent = [miss_result (TestData [] [] 0)], closed = True\<rparr>))
   \<and> (\<exists>c'. Get 64 (TestData [] [] 0)
          (ingest default_cache
            [(created (TestData ''a'' ''Original'' 25), 5, 7),
             (created (TestData ''b'' ''Bob'' 30), 6, 8),
             (updated (TestData ''a'' ''Updated'' 26), 7, 9),
             (deleted (TestData ''b'' ''Bob'' 30), 8, 10),
             (created (TestData [] ''Nobody'' 1), 9, 11)]) 100 SendResult [] =
        Inr (c', \<lparr>capacity = 64, sent = [miss_result (TestData [] [] 0)], closed = True\<rparr>))
   \<and> Get 63 (TestData [] [] 0) (ingest default_cache []) 100 SendResult ''a'' = Inl PanicMakeChan
   \<and> handleEvent default_cache (created (TestData [] ''Nobody'' 1)) 9 11 = default_cache"
proof -
  let ?evs = "[(created (TestData ''a'' ''Original'' 25), 5, 7),
             (created (TestData ''b'' ''Bob'' 30), 6, 8),
             (updated (TestData ''a'' ''Updated'' 26), 7, 9),
             (deleted (TestData ''b'' ''Bob'' 30), 8, 10),
             (created (TestData [] ''Nobody'' 1), 9::int, 11::int)]"
  have fresh: "NewStreamCache DefaultCacheConfig True = Inr default_cache"
    by (rule default_cache_new)
  have ttl: "\<forall>(e, t, v) \<in> set ?evs. Since 100 t \<le> TTL (config default_cache)"
    by (simp add: Since_def Sub_def maxDuration_def minDuration_def default_cache_def
        DefaultCacheConfig_def Minute_def)
  have ttl0: "\<forall>(e, t, v) \<in> set ([] :: (Event \<times> Time \<times> int) list).
                Since 100 t \<le> TTL (config default_cache)"
    by simp
  have ids: "extractID (TestData i n a) = i" for i n a
    by (simp add: extractID_def TestData_def deref_def FieldByName_def)
  have a: "last_event_for ''a'' ?evs = Some (updated (TestData ''a'' ''Updated'' 26), 7, 9)"
    by (simp add: ids created_def updated_def deleted_def)
  have b: "last_event_for ''b'' ?evs = Some (deleted (TestData ''b'' ''Bob'' 30), 8, 10)"
    by (simp add: ids created_def updated_def deleted_def)
  have bufsz: "BufferSize (config default_cache) = 64"
    by (simp add: default_cache_def DefaultCacheConfig_def)
  have noid: "extractID (Payload (created (TestData [] ''Nobody'' 1))) = []"
    by (simp add: ids created_def)
  have ra: "\<exists>c'. Get 64 (TestData [] [] 0) (ingest default_cache ?evs) 100 SendResult ''a'' =
        Inr (c', \<lparr>capacity = 64, sent = [hit_result (TestData ''a'' ''Updated'' 26) 7 9],
                  closed = True\<rparr>)"
    using Get_after_ingest [OF fresh ttl, of 64 "TestData [] [] 0" "''a''", unfolded a bufsz]
    by (simp add: updated_def)
  have rb: "\<exists>c'. Get 64 (TestData [] [] 0) (ingest default_cache ?evs) 100 SendResult ''b'' =
        Inr (c', \<lparr>capacity = 64, sent = [miss_result (TestData [] [] 0)], closed = True\<rparr>)"
    using Get_after_ingest [OF fresh ttl, of 64 "TestData [] [] 0" "''b''", unfolded b bufsz]
    by (simp add: deleted_def)
  have re: "\<exists>c'. Get 64 (TestData [] [] 0) (ingest default_cache ?evs) 100 SendResult [] =
        Inr (c', \<lparr>capacity = 64, sent = [miss_result (TestData [] [] 0)], closed = True\<rparr>)"
    using Get_after_ingest [OF fresh ttl, of 64 "TestData [] [] 0" "[]", unfolded bufsz]
    by simp
  have rp: "Get 63 (TestData [] [] 0) (ingest default_cache []) 100 SendResult ''a''
        = Inl PanicMakeChan"
    using Get_after_ingest [OF fresh ttl0, of 63 "TestData [] [] 0" "''a''" SendResult,
        unfolded bufsz]
    by simp
  have rd: "handleEvent default_cache (created (TestData [] ''Nobody'' 1)) 9 11 = default_cache"
    using Get_after_ingest [OF fresh ttl0, of 64 "TestData [] [] 0" "''a''" SendResult
        "created (TestData [] ''Nobody'' 1)" default_cache 9 11] noid
    by simp
  from fresh ra rb re rp rd show ?thesis by blast
qed

text \<open>
  The claim without these conditions fails. An event whose payload has the empty id is
  dropped by \<^verbatim>\<open>handleEvent\<close>, so \<^verbatim>\<open>Get\<close> of the empty id misses although the last event for
  it was Created. When the select takes the branch of the cancelled context, the channel is
  closed without any value. With a negative BufferSize, or one beyond what the runtime
  grants, \<^verbatim>\<open>make\<close> panics and no channel is returned.
\<close>

theorem Get_after_ingest_counterexample:
  "last_event_for [] [(created (TestData [] ''Nobody'' 1), 5, 7)]
     = Some (created (TestData [] ''Nobody'' 1), 5, 7)
   \<and> Get 64 (TestData [] [] 0) (ingest default_cache [(created (TestData [] ''Nobody'' 1), 5, 7)])
         10 SendResult []
     = Inr (default_cache\<lparr>stats := zeroStats\<lparr>MissCount := 1\<rparr>\<rparr>,
            \<lparr>capacity = 64, sent = [miss_result (TestData [] [] 0)], closed = True\<rparr>)
   \<and> Get 64 (TestData [] [] 0) (ingest default_cache [(created (TestData ''a'' ''Alice'' 25), 5, 7)])
         10 CtxDone ''a''
     = Inr (default_cache
              \<lparr>items := [(''a'', \<lparr>data = TestData ''a'' ''Alice'' 25, timestamp = 5,
                                     version = 7, hits = 1\<rparr>)],
                stats := zeroStats\<lparr>ItemCount := 1, HitCount := 1\<rparr>\<rparr>,
            \<lparr>capacity = 64, sent = [], closed = True\<rparr>)
   \<and> NewStreamCache \<lparr>TTL = 1, MaxItems = 1, CleanupInterval = 1, BufferSize = - 1\<rparr> True
     = Inr \<lparr>config = \<lparr>TTL = 1, MaxItems = 1, CleanupInterval = 1, BufferSize = - 1\<rparr>,
            items = [], stats = zeroStats,
            cleanup = Some \<lparr>interval = 1, stopped = False\<rparr>,
            done_closed = False, eventDone_closed = False, eventSub = True\<rparr>
   \<and> Get 64 (TestData [] [] 0)
         \<lparr>config = \<lparr>TTL = 1, MaxItems = 1, CleanupInterval = 1, BufferSize = - 1\<rparr>,
          items = [], stats = zeroStats,
          cleanup = Some \<lparr>interval = 1, stopped = False\<rparr>,
          done_closed = False, eventDone_closed = False, eventSub = True\<rparr>
         0 SendResult ''a''
     = Inl PanicMakeChan
   \<and> Get 63 (TestData [] [] 0) default_cache 10 SendResult ''a'' = Inl PanicMakeChan"
proof -
  have e1: "ingest default_cache [(created (TestData [] ''Nobody'' 1), 5, 7)] = default_cache"
    by (simp add: handleEvent_def created_def TestData_def extractID_def deref_def FieldByName_def)
  have e2: "ingest default_cache [(created (TestData ''a'' ''Alice'' 25), 5, 7)] =
      default_cache\<lparr>items := [(''a'', \<lparr>data = TestData ''a'' ''Alice'' 25, timestamp = 5,
                                       version = 7, hits = 0\<rparr>)],
                    stats := zeroStats\<lparr>ItemCount := 1\<rparr>\<rparr>"
    by (simp add: handleEvent_def created_def TestData_def extractID_def deref_def
        FieldByName_def default_cache_def zeroStats_def Let_def)
  have l: "last_event_for [] [(created (TestData [] ''Nobody'' 1), 5, 7)]
     = Some (created (TestData [] ''Nobody'' 1), 5, 7)"
    by (simp add: created_def TestData_def extractID_def deref_def FieldByName_def)
  have g1: "Get 64 (TestData [] [] 0) default_cache 10 SendResult []
     = Inr (default_cache\<lparr>stats := zeroStats\<lparr>MissCount := 1\<rparr>\<rparr>,
            \<lparr>capacity = 64, sent = [miss_result (TestData [] [] 0)], closed = True\<rparr>)"
    by (simp add: Get_def make_chan_def default_cache_def DefaultCacheConfig_def zeroStats_def
        miss_result_def select_send_def send_def close_chan_def)
  have g2: "Get 64 (TestData [] [] 0)
      (default_cache\<lparr>items := [(''a'', \<lparr>data = TestData ''a'' ''Alice'' 25, timestamp = 5,
                                       version = 7, hits = 0\<rparr>)],
                    stats := zeroStats\<lparr>ItemCount := 1\<rparr>\<rparr>) 10 CtxDone ''a''
     = Inr (default_cache
              \<lparr>items := [(''a'', \<lparr>data = TestData ''a'' ''Alice'' 25, timestamp = 5,
                                     version = 7, hits = 1\<rparr>)],
                stats := zeroStats\<lparr>ItemCount := 1, HitCount := 1\<rparr>\<rparr>,
            \<lparr>capacity = 64, sent = [], closed = True\<rparr>)"
    by (simp add: Get_def make_chan_def default_cache_def DefaultCacheConfig_def zeroStats_def
        isExpired_def Since_def Sub_def maxDuration_def minDuration_def Minute_def
        select_send_def close_chan_def Let_def)
  have n: "NewStreamCache \<lparr>TTL = 1, MaxItems = 1, CleanupInterval = 1, BufferSize = - 1\<rparr> True
     = Inr \<lparr>config = \<lparr>TTL = 1, MaxItems = 1, CleanupInterval = 1, BufferSize = - 1\<rparr>,
            items = [], stats = zeroStats,
            cleanup = Some \<lparr>interval = 1, stopped = False\<rparr>,
            done_closed = False, eventDone_closed = False, eventSub = True\<rparr>"
    by (simp add: NewStreamCache_def NewTicker_def)
  have g3: "Get 64 (TestData [] [] 0)
         \<lparr>config = \<lparr>TTL = 1, MaxItems = 1, CleanupInterval = 1, BufferSize = - 1\<rparr>,
          items = [], stats = zeroStats,
          cleanup = Some \<lparr>interval = 1, stopped = False\<rparr>,
          done_closed = False, eventDone_closed = False, eventSub = True\<rparr>
         0 SendResult ''a''
     = Inl PanicMakeChan"
    by (simp add: Get_def make_chan_def)
  have g4: "Get 63 (TestData [] [] 0) default_cache 10 SendResult ''a'' = Inl PanicMakeChan"
    by (simp add: Get_def make_chan_def default_cache_def DefaultCacheConfig_def)
  show ?thesis
    unfolding e1 e2 using l g1 g2 n g3 g4 by blast
qed

lemma extractID_TestData: "extractID (TestData i n a) = i"
  by (simp add: extractID_def TestData_def deref_def FieldByName_def)

lemma three_items_ingested:
  "ingest default_cache [(created alice, 1, 11), (created bob, 2, 12), (created charlie, 3, 13)]
     = three_items"
  by (simp add: handleEvent_def created_def extractID_TestData alice_def bob_def charlie_def
      default_cache_def zeroStats_def three_items_def Let_def)


lemma bounded_cache_new: "NewStreamCache bounded_config True = Inr bounded_cache"
  by (simp add: NewStreamCache_def bounded_config_def NewTicker_def Minute_def bounded_cache_def)

section \<open>Versions\<close>

text \<open>
  C6, as amended. The version given to a record by an insert or a refresh is the
  wall-clock reading \<^verbatim>\<open>time.Now().UnixNano()\<close> taken while the event is handled, and no other
  record's version changes. A later insert or refresh therefore gets a strictly greater
  version than an earlier one exactly when its reading is strictly greater.
\<close>

theorem version_is_clock_reading:
  "extractID (Payload e) \<noteq> [] \<Longrightarrow> Type e \<noteq> DeletedEvent \<Longrightarrow>
   map_option version (map_of (items (handleEvent c e now unixNano)) (extractID (Payload e)))
     = Some unixNano
   \<and> (\<forall>k. k \<noteq> extractID (Payload e) \<longrightarrow>
          map_of (items (handleEvent c e now unixNano)) k = map_of (items c) k)"
  by (auto simp: handleEvent_def Let_def update_conv' delete_conv'
      split: EventType.splits option.splits)

theorem version_is_clock_reading_witness:
  "extractID (Payload (created bob)) \<noteq> [] \<and> Type (created bob) \<noteq> DeletedEvent
   \<and> map_option version (map_of (items (handleEvent three_items (created bob) 20 5)) ''2'') = Some 5
   \<and> map_option version (map_of (items (handleEvent three_items (created bob) 20 5)) ''3'') = Some 13"
proof -
  have h1: "extractID (Payload (created bob)) \<noteq> []"
    by (simp add: created_def bob_def extractID_TestData)
  have h2: "Type (created bob) \<noteq> DeletedEvent"
    by (simp add: created_def)
  have old: "map_option version (map_of (items three_items) ''3'') = Some 13"
    by (simp add: three_items_def)
  have k: "extractID (Payload (created bob)) = ''2''"
    by (simp add: created_def bob_def extractID_TestData)
  from version_is_clock_reading [OF h1 h2, of three_items 20 5] h1 h2 old show ?thesis
    by (simp add: k)
qed

text \<open>
  Two events handled at the same clock reading get the same version, and after the clock
  has been set back the later refresh gets the smaller one: the versions do not strictly
  increase.
\<close>

theorem version_not_strictly_increasing_counterexample:
  "map_option version
     (map_of (items (ingest default_cache [(created alice, 1, 11), (created bob, 2, 11)])) ''1'')
     = Some 11
   \<and> map_option version
     (map_of (items (ingest default_cache [(created alice, 1, 11), (created bob, 2, 11)])) ''2'')
     = Some 11
   \<and> map_option version
     (map_of (items (ingest default_cache [(created alice, 1, 11), (updated alice, 2, 9)])) ''1'')
     = Some 9"
  by (simp add: handleEvent_def created_def updated_def extractID_TestData alice_def bob_def
      default_cache_def zeroStats_def Let_def)

section \<open>Capacity\<close>

lemma handleEvent_ignores_config:
  "handleEvent (c\<lparr>config := cfg\<rparr>) e now unixNano = (handleEvent c e now unixNano)\<lparr>config := cfg\<rparr>"
  by (simp add: handleEvent_def Let_def split: EventType.splits option.splits)

text \<open>
  C5. The index is not bounded by \<^verbatim>\<open>MaxItems\<close>. On a cache built with \<^verbatim>\<open>MaxItems = 1\<close>, two
  Created events with different ids leave two records in the index and an
  \<^verbatim>\<open>ItemCount\<close> of 2; nothing is evicted.
\<close>

theorem MaxItems_not_enforced:
  "NewStreamCache bounded_config True = Inr bounded_cache
   \<and> MaxItems (config bounded_cache) = 1
   \<and> ingest bounded_cache [(created alice, 1, 11), (created bob, 2, 12)]
       = bounded_cache
           \<lparr>items := [(''1'', \<lparr>data = alice, timestamp = 1, version = 11, hits = 0\<rparr>),
                      (''2'', \<lparr>data = bob, timestamp = 2, version = 12, hits = 0\<rparr>)],
             stats := zeroStats\<lparr>ItemCount := 2\<rparr>\<rparr>"
proof -
  have "ingest bounded_cache [(created alice, 1, 11), (created bob, 2, 12)]
       = bounded_cache
           \<lparr>items := [(''1'', \<lparr>data = alice, timestamp = 1, version = 11, hits = 0\<rparr>),
                      (''2'', \<lparr>data = bob, timestamp = 2, version = 12, hits = 0\<rparr>)],
             stats := zeroStats\<lparr>ItemCount := 2\<rparr>\<rparr>"
    by (simp add: handleEvent_def created_def extractID_TestData alice_def bob_def
        bounded_cache_def zeroStats_def Let_def)
  moreover have "MaxItems (config bounded_cache) = 1"
    by (simp add: bounded_cache_def bounded_config_def)
  ultimately show ?thesis using bounded_cache_new by simp
qed

section \<open>Filters, List and Query\<close>

lemma matchesFilter_other_operator:
  "Operator f \<noteq> FilterEquals \<Longrightarrow> Operator f \<noteq> FilterNotEquals \<Longrightarrow> matchesFilter v f = True"
  by (simp add: matchesFilter_def)

lemma matchesFilter_eq: "matchesFilter v \<lparr>Field = n, Operator = FilterEquals, Value = x\<rparr> = (v = x)"
  by (simp add: matchesFilter_def)

lemma matchesFilter_ne: "matchesFilter v \<lparr>Field = n, Operator = FilterNotEquals, Value = x\<rparr> = (v \<noteq> x)"
  by (simp add: matchesFilter_def FilterEquals_def FilterNotEquals_def)

text \<open>
  C3. Only \<^verbatim>\<open>eq\<close> and \<^verbatim>\<open>ne\<close> are evaluated; every other operator makes the filter true. Age 25
  passes \<^verbatim>\<open>gt 30\<close>, Age 35 passes \<^verbatim>\<open>lt 30\<close>, Age 25 passes \<^verbatim>\<open>in\<close> with the empty set, the
  integer field Age passes \<^verbatim>\<open>contains\<close> with a string, and a filter on a field the entity
  does not have is skipped, so that the entity passes as well.
\<close>

theorem unimplemented_operators_match:
  "matchesFilter (VInt 25) \<lparr>Field = ''Age'', Operator = FilterGreater, Value = VInt 30\<rparr> = True
   \<and> matchesFilter (VInt 35) \<lparr>Field = ''Age'', Operator = FilterLess, Value = VInt 30\<rparr> = True
   \<and> matchesFilter (VInt 25) \<lparr>Field = ''Age'', Operator = FilterIn, Value = VSlice []\<rparr> = True
   \<and> matchesFilter (VInt 25) \<lparr>Field = ''Age'', Operator = FilterNotIn, Value = VSlice [VInt 25]\<rparr> = True
   \<and> matchesFilter (VInt 25) \<lparr>Field = ''Age'', Operator = FilterContains, Value = VString ''x''\<rparr> = True
   \<and> matchesFilters alice [\<lparr>Field = ''Age'', Operator = FilterGreater, Value = VInt 30\<rparr>] = Inr True
   \<and> matchesFilters alice [\<lparr>Field = ''Height'', Operator = FilterEquals, Value = VInt 30\<rparr>] = Inr True"
  by (simp add: matchesFilter_def matchesFilters_def FieldByName_def deref_def alice_def TestData_def
      FilterEquals_def FilterNotEquals_def FilterGreater_def FilterLess_def FilterIn_def
      FilterNotIn_def FilterContains_def)

lemma Query_ignores_sort_and_pagination:
  "Query lim c now stamp br_list br (q\<lparr>Sort := s, Limit := l, Offset := off\<rparr>)
     = Query lim c now stamp br_list br q"
  by (simp add: Query_def split: sum.splits)

lemma List_three_items:
  "64 \<le> lim \<Longrightarrow>
   List lim three_items 10 11 SendResult [] =
     Inr \<lparr>capacity = 64,
          sent = [\<lparr>Data = [alice, bob, charlie], Error = None, Cached = True,
                   Timestamp = Some 11, Version = 0\<rparr>],
          closed = True\<rparr>"
  by (simp add: List_def make_chan_def three_items_def default_cache_def DefaultCacheConfig_def
      isExpired_def Since_def Sub_def maxDuration_def minDuration_def Minute_def
      matchesFilters_def select_send_def send_def close_chan_def)

text \<open>
  C4. \<^verbatim>\<open>Query\<close> forwards what \<^verbatim>\<open>List\<close> emits for the query's filters and reads neither
  \<^verbatim>\<open>Sort\<close> nor \<^verbatim>\<open>Offset\<close> nor \<^verbatim>\<open>Limit\<close>. With three cached records (and a runtime that
  grants the 64 slots of the default BufferSize), a query sorted by Age descending with
  offset 1 and limit 1 emits all three records in index order, not the single record Bob.
\<close>

theorem Query_emits_unsorted_unpaginated:
  "64 \<le> lim \<Longrightarrow>
   Query lim three_items 10 11 SendResult SendResult
     \<lparr>Filters = [], Sort = [\<lparr>SortName = ''Age'', Desc = True\<rparr>], Limit = 1, Offset = 1\<rparr>
   = Inr \<lparr>capacity = 64,
          sent = [\<lparr>Data = [alice, bob, charlie], Error = None, Cached = True,
                   Timestamp = Some 11, Version = 0\<rparr>],
          closed = True\<rparr>"
proof -
  assume lim: "64 \<le> lim"
  have "BufferSize (config three_items) = 64"
    by (simp add: three_items_def default_cache_def DefaultCacheConfig_def)
  with lim show ?thesis
    by (simp add: Query_def List_three_items make_chan_def send_def close_chan_def)
qed

theorem Query_emits_unsorted_unpaginated_witness:
  "(64::nat) \<le> 64
   \<and> Query 64 three_items 10 11 SendResult SendResult
     \<lparr>Filters = [], Sort = [\<lparr>SortName = ''Age'', Desc = True\<rparr>], Limit = 1, Offset = 1\<rparr>
   = Inr \<lparr>capacity = 64,
          sent = [\<lparr>Data = [alice, bob, charlie], Error = None, Cached = True,
                   Timestamp = Some 11, Version = 0\<rparr>],
          closed = True\<rparr>"
proof -
  have h: "(64::nat) \<le> 64" by simp
  from Query_emits_unsorted_unpaginated [OF h] h show ?thesis by simp
qed

lemma List_closed_after_one:
  "List lim c now stamp br filters = Inr ch \<Longrightarrow> closed ch \<and> length (sent ch) \<le> 1"
  by (auto simp: List_def make_chan_def select_send_def send_def close_chan_def
      split: if_splits sum.splits select_branch.splits)

text \<open>
  C2. The channel of \<^verbatim>\<open>List\<close> is not long-lived: its producer sends the first snapshot and
  closes the channel, whether or not the context was cancelled. On the empty default cache
  with the send taken (and a runtime that grants the 64 slots of the default BufferSize),
  the channel holds the one snapshot \<open>[]\<close> and is closed; a record created afterwards is
  in the index, and the closed channel holds no snapshot with it.
\<close>

theorem List_closes_after_first_snapshot:
  "64 \<le> lim \<Longrightarrow>
   List lim default_cache 10 11 SendResult [] =
     Inr \<lparr>capacity = 64,
          sent = [\<lparr>Data = [], Error = None, Cached = True, Timestamp = Some 11, Version = 0\<rparr>],
          closed = True\<rparr>
   \<and> map fst (items (handleEvent default_cache (created alice) 12 13)) = [''1'']"
  by (simp add: List_def make_chan_def default_cache_def DefaultCacheConfig_def
      select_send_def send_def close_chan_def handleEvent_def created_def extractID_TestData
      alice_def Let_def)

theorem List_closes_after_first_snapshot_witness:
  "(64::nat) \<le> 64
   \<and> List 64 default_cache 10 11 SendResult [] =
     Inr \<lparr>capacity = 64,
          sent = [\<lparr>Data = [], Error = None, Cached = True, Timestamp = Some 11, Version = 0\<rparr>],
          closed = True\<rparr>
   \<and> map fst (items (handleEvent default_cache (created alice) 12 13)) = [''1'']"
proof -
  have h: "(64::nat) \<le> 64" by simp
  from List_closes_after_first_snapshot [OF h] h show ?thesis by simp
qed

section \<open>Close\<close>

text \<open>
  C7, as amended. On a cache whose \<^verbatim>\<open>done\<close> and \<^verbatim>\<open>eventDone\<close> channels are open, \<^verbatim>\<open>Close\<close>
  returns nil, closes both channels (the signals on which the cleanup task and the ingest
  task return) and stops the cleanup ticker, leaving the index as it is. A further
  \<^verbatim>\<open>Close\<close> on the same cache does not return: it panics on closing the closed channel.
\<close>

theorem Close_once_then_panics:
  "\<not> done_closed c \<Longrightarrow> \<not> eventDone_closed c \<Longrightarrow>
   \<exists>c'. Close c = Inr (c', None)
        \<and> done_closed c' \<and> eventDone_closed c'
        \<and> cleanup c' = map_option (\<lambda>t. t\<lparr>stopped := True\<rparr>) (cleanup c)
        \<and> items c' = items c \<and> stats c' = stats c \<and> config c' = config c
        \<and> Close c' = Inl PanicCloseOfClosedChannel"
  by (cases "cleanup c") (simp_all add: Close_def close_signal_def)

theorem Close_once_then_panics_witness:
  "\<not> done_closed default_cache \<and> \<not> eventDone_closed default_cache
   \<and> (\<exists>c'. Close default_cache = Inr (c', None)
        \<and> cleanup c' = Some \<lparr>interval = Minute, stopped = True\<rparr>
        \<and> Close c' = Inl PanicCloseOfClosedChannel)"
proof -
  have h1: "\<not> done_closed default_cache" and h2: "\<not> eventDone_closed default_cache"
    by (simp_all add: default_cache_def)
  from Close_once_then_panics [OF h1 h2] h1 h2 show ?thesis
    by (auto simp: default_cache_def)
qed

theorem Close_twice_counterexample:
  "Close default_cache =
     Inr (default_cache\<lparr>cleanup := Some \<lparr>interval = Minute, stopped = True\<rparr>,
                        done_closed := True, eventDone_closed := True\<rparr>, None)
   \<and> Close (default_cache\<lparr>cleanup := Some \<lparr>interval = Minute, stopped = True\<rparr>,
                           done_closed := True, eventDone_closed := True\<rparr>)
     = Inl PanicCloseOfClosedChannel"
  by (simp add: Close_def close_signal_def default_cache_def)

section \<open>The manager's lifecycle\<close>

lemma Start_when_started: "started (manager w) \<Longrightarrow> Start w = Inr (w, None)"
  by (simp add: Start_def)

lemma Stop_when_not_started: "\<not> started (manager w) \<Longrightarrow> Stop w = Inr (w, None)"
  by (simp add: Stop_def)

lemma Start_returns_only_if:
  assumes "\<not> started (manager w)" and "Start w = Inr (w1, e1)"
  shows "sessionService (manager w) \<and> messageService (manager w)
         \<and> (\<exists>cs. NewStreamCache (mconfig (manager w)) True = Inr cs)"
  using assms
  by (auto simp: Start_def Let_def SessionCacheManager_Start_def MessageCacheManager_Start_def
      NewSessionCache_def NewMessageCache_def NewSessionCacheManager_def
      NewMessageCacheManager_def split: if_splits sum.splits)

lemma Start_constructs:
  assumes "\<not> started (manager w)" and "sessionService (manager w)" and "messageService (manager w)"
    and "NewStreamCache (mconfig (manager w)) True = Inr cs"
  shows "Start w = Inr (\<lparr>heap = heap w @ [cs, cs], manager = running (manager w) (length (heap w))\<rparr>, None)"
  using assms
  by (simp add: Start_def Let_def SessionCacheManager_Start_def MessageCacheManager_Start_def
      NewSessionCache_def NewMessageCache_def NewSessionCacheManager_def
      NewMessageCacheManager_def running_def)

lemma NewStreamCache_open:
  "NewStreamCache cfg sub = Inr cs \<Longrightarrow> \<not> done_closed cs \<and> \<not> eventDone_closed cs \<and> items cs = []"
  by (auto simp: NewStreamCache_def Let_def split: sum.splits)

lemma Close_open:
  "\<not> done_closed c \<Longrightarrow> \<not> eventDone_closed c \<Longrightarrow> Close c = Inr (closed_cache c, None)"
  by (cases "cleanup c") (simp_all add: Close_def close_signal_def closed_cache_def)

lemma Stop_running:
  assumes "\<not> done_closed cs" and "\<not> eventDone_closed cs"
  shows "Stop \<lparr>heap = h @ [cs, cs], manager = running m (length h)\<rparr> =
         Inr (\<lparr>heap = h @ [closed_cache cs, closed_cache cs],
               manager = (running m (length h))\<lparr>ctx_cancelled := Some True, started := False\<rparr>\<rparr>, None)"
  using assms
  by (simp add: Stop_def Let_def running_def SessionCacheManager_Stop_def
      MessageCacheManager_Stop_def Close_at_def store_get_def Close_open nth_append
      list_update_append)

text \<open>
  C8. \<^verbatim>\<open>Start\<close> on a started manager returns nil and changes nothing, so no cache is
  constructed; \<^verbatim>\<open>Stop\<close> on a manager that is not started returns nil and changes nothing.
  When \<^verbatim>\<open>Start\<close> on a manager that is not started returns, it has returned nil and appended
  two new caches to the store; a second \<^verbatim>\<open>Start\<close> is then without effect; \<^verbatim>\<open>Stop\<close> returns
  nil, closes these two caches and clears the started flag, and a second \<^verbatim>\<open>Stop\<close> is
  without effect; \<^verbatim>\<open>Start\<close> after that \<^verbatim>\<open>Stop\<close> returns nil again and constructs two more
  caches, open and empty, at addresses that did not exist before, leaving the closed ones
  where they were.
\<close>

theorem Manager_Start_Stop_idempotent:
  "(started (manager w) \<longrightarrow> Start w = Inr (w, None))
   \<and> (\<not> started (manager w) \<longrightarrow> Stop w = Inr (w, None))
   \<and> (\<not> started (manager w) \<and> Start w = Inr (w1, e1) \<longrightarrow>
        (\<exists>cs. NewStreamCache (mconfig (manager w)) True = Inr cs
           \<and> \<not> done_closed cs \<and> \<not> eventDone_closed cs \<and> items cs = []
           \<and> e1 = None
           \<and> w1 = \<lparr>heap = heap w @ [cs, cs], manager = running (manager w) (length (heap w))\<rparr>
           \<and> Start w1 = Inr (w1, None)
           \<and> (\<exists>w2. Stop w1 = Inr (w2, None)
                 \<and> \<not> started (manager w2)
                 \<and> heap w2 = heap w @ [closed_cache cs, closed_cache cs]
                 \<and> Stop w2 = Inr (w2, None)
                 \<and> Start w2 =
                     Inr (\<lparr>heap = heap w2 @ [cs, cs],
                           manager = running (manager w2) (length (heap w) + 2)\<rparr>, None))))"
proof -
  have restart: "\<exists>cs. NewStreamCache (mconfig (manager w)) True = Inr cs
           \<and> \<not> done_closed cs \<and> \<not> eventDone_closed cs \<and> items cs = []
           \<and> e1 = None
           \<and> w1 = \<lparr>heap = heap w @ [cs, cs], manager = running (manager w) (length (heap w))\<rparr>
           \<and> Start w1 = Inr (w1, None)
           \<and> (\<exists>w2. Stop w1 = Inr (w2, None)
                 \<and> \<not> started (manager w2)
                 \<and> heap w2 = heap w @ [closed_cache cs, closed_cache cs]
                 \<and> Stop w2 = Inr (w2, None)
                 \<and> Start w2 =
                     Inr (\<lparr>heap = heap w2 @ [cs, cs],
                           manager = running (manager w2) (length (heap w) + 2)\<rparr>, None))"
    if off: "\<not> started (manager w)" and ret: "Start w = Inr (w1, e1)"
  proof -
    from Start_returns_only_if [OF off ret]
    obtain cs where ss: "sessionService (manager w)" and ms: "messageService (manager w)"
      and new: "NewStreamCache (mconfig (manager w)) True = Inr cs"
      by blast
    from NewStreamCache_open [OF new]
    have "open": "\<not> done_closed cs" "\<not> eventDone_closed cs" and empty: "items cs = []"
      by simp_all
    let ?w1 = "\<lparr>heap = heap w @ [cs, cs], manager = running (manager w) (length (heap w))\<rparr>"
    let ?w2 = "\<lparr>heap = heap w @ [closed_cache cs, closed_cache cs],
                manager = (running (manager w) (length (heap w)))
                            \<lparr>ctx_cancelled := Some True, started := False\<rparr>\<rparr>"
    from Start_constructs [OF off ss ms new] ret
    have w1: "w1 = ?w1" and e1: "e1 = None"
      by simp_all
    have again: "Start ?w1 = Inr (?w1, None)"
      by (rule Start_when_started) (simp add: running_def)
    have stop: "Stop ?w1 = Inr (?w2, None)"
      by (rule Stop_running [OF "open"])
    have off2: "\<not> started (manager ?w2)"
      by simp
    have stop2: "Stop ?w2 = Inr (?w2, None)"
      by (rule Stop_when_not_started [OF off2])
    have "Start ?w2 = Inr (\<lparr>heap = heap ?w2 @ [cs, cs],
                             manager = running (manager ?w2) (length (heap ?w2))\<rparr>, None)"
      by (rule Start_constructs [OF off2]) (simp_all add: running_def ss ms new)
    then have start2: "Start ?w2 = Inr (\<lparr>heap = heap ?w2 @ [cs, cs],
                             manager = running (manager ?w2) (length (heap w) + 2)\<rparr>, None)"
      by simp
    show ?thesis
      apply (rule exI [of _ cs])
      apply (simp only: new "open" empty e1 w1 again simp_thms not_False_eq_True)
      apply (rule exI [of _ ?w2])
      using stop off2 stop2 start2 by simp
  qed
  show ?thesis
    using Start_when_started [of w] Stop_when_not_started [of w] restart by blast
qed

lemma example_world_facts:
  "\<not> started (manager example_world)"
  "sessionService (manager example_world)"
  "messageService (manager example_world)"
  "mconfig (manager example_world) = DefaultCacheConfig"
  "heap example_world = []"
  by (simp_all add: example_world_def NewManager_def DefaultCacheConfig_def Minute_def)

lemma example_world_Start:
  "Start example_world =
     Inr (\<lparr>heap = [default_cache, default_cache], manager = running (manager example_world) 0\<rparr>, None)"
proof -
  have new: "NewStreamCache (mconfig (manager example_world)) True = Inr default_cache"
    by (simp only: example_world_facts default_cache_new)
  from Start_constructs [OF example_world_facts(1-3) new] show ?thesis
    by (simp add: example_world_facts(5))
qed

theorem Manager_Start_Stop_idempotent_witness:
  "\<not> started (manager example_world)
   \<and> Start example_world =
       Inr (\<lparr>heap = [default_cache, default_cache],
             manager = running (manager example_world) 0\<rparr>, None)
   \<and> Stop example_world = Inr (example_world, None)
   \<and> Start \<lparr>heap = [default_cache, default_cache], manager = running (manager example_world) 0\<rparr>
       = Inr (\<lparr>heap = [default_cache, default_cache],
               manager = running (manager example_world) 0\<rparr>, None)
   \<and> (\<exists>w2. Stop \<lparr>heap = [default_cache, default_cache],
                    manager = running (manager example_world) 0\<rparr> = Inr (w2, None)
          \<and> \<not> started (manager w2)
          \<and> heap w2 = [closed_cache default_cache, closed_cache default_cache]
          \<and> Start w2 =
              Inr (\<lparr>heap = [closed_cache default_cache, closed_cache default_cache,
                            default_cache, default_cache],
                    manager = running (manager w2) 2\<rparr>, None))"
proof -
  have off: "\<not> started (manager example_world)"
    by (simp add: example_world_def NewManager_def)
  have cfg: "mconfig (manager example_world) = DefaultCacheConfig"
    by (simp add: example_world_def NewManager_def DefaultCacheConfig_def Minute_def)
  have h: "heap example_world = []"
    by (simp add: example_world_def)
  show ?thesis
    using Manager_Start_Stop_idempotent
      [of example_world
          "\<lparr>heap = [default_cache, default_cache], manager = running (manager example_world) 0\<rparr>"
          None]
      off example_world_Start
    by (auto simp: cfg h default_cache_new numeral_2_eq_2)
qed

end
